theory Spec2Isabelle
  imports Complex_Main
begin

section \<open>Website audit tool: scoring, aggregation and recommendations\<close>

text \<open>
  The repository has two auditor classes. \<^verbatim>\<open>WebsiteAuditor\<close> (src/lib/auditor.js) measures a
  page in a headless browser; \<^verbatim>\<open>SimpleWebsiteAuditor\<close> (src/lib/simpleAuditor.js) is the one
  the route uses and answers from canned data chosen by substrings of the URL.

  Conventions of the embedding:
  \<^item> a JavaScript object with a fixed shape is a record, its fields named as in the source
    (prefixed where two shapes share a field name);
  \<^item> a JavaScript number is a rational (\<open>rat\<close>), or an \<open>int\<close> where the source only ever
    subtracts and adds integer literals; where the source multiplies, adds and divides
    numbers that are not integers (\<^verbatim>\<open>calculateOverallScore\<close>), the literals and operations
    are those of IEEE 754 doubles; elsewhere such a number is only stored or compared and
    is written as the decimal fraction of its literal;
  \<^item> a field that may be \<^verbatim>\<open>undefined\<close> is an \<open>option\<close>, and a comparison with
    \<^verbatim>\<open>undefined\<close> is false, as in JavaScript;
  \<^item> a thrown exception is the \<open>Inl\<close> branch of a sum;
  \<^item> what a function reads from the outside world (the clock, the outcome of a browser
    session) is an explicit argument.
  Where both classes contain the same method text (\<^verbatim>\<open>calculateOverallScore\<close>,
  \<^verbatim>\<open>generateRecommendations\<close>) one definition stands for both; a method of
  \<^verbatim>\<open>WebsiteAuditor\<close> whose name the simple auditor also uses carries the prefix \<open>full_\<close>.
\<close>

subsection \<open>JavaScript comparisons and rounding\<close>

definition js_gt :: "rat option \<Rightarrow> rat \<Rightarrow> bool" where
  \<comment> \<open>\<^verbatim>\<open>x > c\<close> for a possibly undefined number \<open>x\<close>\<close>
  "js_gt x c = (case x of None \<Rightarrow> False | Some v \<Rightarrow> c < v)"

definition js_lt :: "int option \<Rightarrow> int \<Rightarrow> bool" where
  \<comment> \<open>\<^verbatim>\<open>x < c\<close> for a possibly undefined number \<open>x\<close>\<close>
  "js_lt x c = (case x of None \<Rightarrow> False | Some v \<Rightarrow> v < c)"

definition Math_round :: "rat \<Rightarrow> int" where
  \<comment> \<open>\<^verbatim>\<open>Math.round\<close>: the nearest integer, a tie going up\<close>
  "Math_round x = \<lfloor>x + 1 / 2\<rfloor>"

primrec js_includes :: "string \<Rightarrow> string \<Rightarrow> bool" where
  \<comment> \<open>\<^verbatim>\<open>s.includes(t)\<close>: \<open>t\<close> occurs in \<open>s\<close> as a contiguous run of characters\<close>
  "js_includes [] t = (t = [])"
| "js_includes (c # cs) t = (take (length t) (c # cs) = t \<or> js_includes cs t)"

subsection \<open>IEEE 754 double arithmetic\<close>

text \<open>
  A finite JavaScript number is a binary64 value, which is a rational number. An arithmetic
  operation returns the exact result rounded to the nearest number with a significand of 53
  bits, a tie going to the even significand. The exponent range is not bounded in this
  model: overflow to infinity and subnormal results, which need magnitudes above \<open>2^1023\<close>
  or below \<open>2^-1022\<close>, are left out. A decimal literal \<open>d\<close> that takes part in such an
  operation is \<open>to_double d\<close>, the double nearest to it.
\<close>

fun bit_length :: "nat \<Rightarrow> nat" where
  \<comment> \<open>the number of binary digits of \<open>n\<close>\<close>
  "bit_length n = (if n = 0 then 0 else Suc (bit_length (n div 2)))"

declare bit_length.simps [simp del]

definition floor_log2 :: "rat \<Rightarrow> int" where
  \<comment> \<open>for \<open>0 < q\<close>: the \<open>e\<close> with \<open>2^e \<le> q < 2^(e+1)\<close>\<close>
  "floor_log2 q =
     (if 1 \<le> q then int (bit_length (nat \<lfloor>q\<rfloor>)) - 1
      else - int (bit_length (nat (\<lceil>1 / q\<rceil> - 1))))"

definition pow2 :: "int \<Rightarrow> rat" where
  "pow2 k = (if 0 \<le> k then 2 ^ nat k else 1 / 2 ^ nat (- k))"

definition round_half_even :: "rat \<Rightarrow> int" where
  "round_half_even m =
     (let f = \<lfloor>m\<rfloor>; r = m - of_int f
      in if r < 1 / 2 then f else if 1 / 2 < r then f + 1 else if even f then f else f + 1)"

definition to_double :: "rat \<Rightarrow> rat" where
  \<comment> \<open>round to nearest, ties to even: \<open>u\<close> is the distance between neighbouring doubles
      around \<open>x\<close>\<close>
  "to_double x =
     (if x = 0 then 0
      else let a = \<bar>x\<bar>; u = pow2 (floor_log2 a - 52)
           in sgn x * of_int (round_half_even (a / u)) * u)"

definition js_add :: "rat \<Rightarrow> rat \<Rightarrow> rat" where
  "js_add x y = to_double (x + y)"

definition js_mul :: "rat \<Rightarrow> rat \<Rightarrow> rat" where
  "js_mul x y = to_double (x * y)"

definition js_div :: "rat \<Rightarrow> rat \<Rightarrow> rat" where
  "js_div x y = to_double (x / y)"

subsection \<open>Signal bundles\<close>

record web_vitals =
  lcp :: "rat option"
  fid :: "rat option"
  cls :: "rat option"
  fcp :: "rat option"
  tbt :: "rat option"
  si :: "rat option"

record perf_metrics =
  domContentLoaded :: rat
  loadComplete :: rat
  firstPaint :: rat
  firstContentfulPaint :: rat
  largestContentfulPaint :: "rat option"
  totalBlockingTime :: "rat option"
  speedIndex :: "rat option"

text \<open>
  \<^verbatim>\<open>seoChecks\<close>, as both \<^verbatim>\<open>auditSEO\<close> methods build it. Title and meta description have
  the same shape.
\<close>

record text_check =
  present :: bool
  content :: string
  text_length :: nat
  optimal :: bool

record heading_check =
  h1 :: nat
  h2 :: nat
  h3 :: nat
  h4 :: nat
  h5 :: nat
  h6 :: nat
  hasH1 :: bool
  multipleH1 :: bool

record image_check =
  img_total :: nat
  withAlt :: nat
  withoutAlt :: nat
  altTextCoverage :: rat

record link_check =
  total :: nat
  internal :: nat
  external :: nat
  withTitle :: nat

record structured_data_check =
  jsonLd :: nat
  microdata :: nat
  rdfa :: nat

record robots_check =
  metaRobots :: string
  robotsTxt :: string

record sitemap_check =
  sitemap_present :: bool
  sitemap_url :: string

record seo_checks =
  title :: text_check
  metaDescription :: text_check
  headings :: heading_check
  images :: image_check
  links :: link_check
  structuredData :: structured_data_check
  robots :: robots_check
  sitemap :: sitemap_check

text \<open>
  An entry of an \<^verbatim>\<open>issues\<close> array. The source builds entries with different subsets of
  the fields; a field an entry does not have is \<open>None\<close>.
\<close>

record issue =
  issue_type :: string
  issue_message :: string
  issue_severity :: "string option"
  issue_category :: "string option"
  issue_count :: "nat option"
  issue_elements :: "string list option"

text \<open>
  The result object of one category. Every such object that carries measurements has a
  \<^verbatim>\<open>score\<close>. The SEO result is \<^verbatim>\<open>{...seoChecks, score}\<close>; the record keeps the spread
  checks together in the field \<open>seo_facts\<close>.
\<close>

record scored =
  score :: int

record performance_bundle = scored +
  coreWebVitals :: web_vitals
  metrics :: perf_metrics
  perf_note :: "string option"

record seo_bundle = scored +
  seo_facts :: seo_checks

record accessibility_bundle = scored +
  a11y_issues :: "issue list"
  totalElements :: nat
  passedAudits :: "nat option"
  manualChecks :: "nat option"
  a11y_note :: "string option"

record crawlability_bundle = scored +
  crawl_issues :: "issue list"
  crawl_url :: string
  hasContent :: bool
  scriptCount :: nat

text \<open>
  A category slot of the \<^verbatim>\<open>results\<close> object holds one of three shapes: the placeholder
  \<^verbatim>\<open>{}\<close> that \<^verbatim>\<open>auditWebsite\<close> starts with, the object \<^verbatim>\<open>{ error, score }\<close> that the
  \<^verbatim>\<open>catch\<close> blocks of \<^verbatim>\<open>WebsiteAuditor\<close> return, or a bundle.
\<close>

datatype 'b slot = Empty | ErrorMarker string int | Bundle 'b

definition slot_score :: "('a scored_scheme) slot \<Rightarrow> int option" where
  \<comment> \<open>\<^verbatim>\<open>slot.score\<close>; \<open>None\<close> is \<^verbatim>\<open>undefined\<close>\<close>
  "slot_score s = (case s of Empty \<Rightarrow> None | ErrorMarker e sc \<Rightarrow> Some sc | Bundle b \<Rightarrow> Some (score b))"

record recommendation =
  category :: string
  priority :: string
  message :: string
  details :: string

record audit_result =
  audit_url :: string
  timestamp :: string
  performance :: "performance_bundle slot"
  seo :: "seo_bundle slot"
  accessibility :: "accessibility_bundle slot"
  crawlability :: "crawlability_bundle slot"
  overallScore :: int
  recommendations :: "recommendation list"

datatype js_error = TypeError string | Error string

fun error_message :: "js_error \<Rightarrow> string" where
  "error_message (TypeError m) = m"
| "error_message (Error m) = m"

subsection \<open>Category scorers of the full auditor\<close>

definition calculatePerformanceScore :: "web_vitals \<Rightarrow> perf_metrics \<Rightarrow> int" where
  "calculatePerformanceScore vitals mtr =
     (let sc = 100;
          sc = (if js_gt (lcp vitals) 4000 then sc - 30
                   else if js_gt (lcp vitals) 2500 then sc - 15 else sc);
          sc = (if js_gt (fid vitals) 300 then sc - 25
                   else if js_gt (fid vitals) 100 then sc - 10 else sc);
          sc = (if js_gt (cls vitals) (25 / 100) then sc - 20
                   else if js_gt (cls vitals) (1 / 10) then sc - 10 else sc);
          sc = (if 3000 < domContentLoaded mtr then sc - 10 else sc);
          sc = (if 5000 < loadComplete mtr then sc - 10 else sc)
      in max 0 sc)"

definition full_calculateSEOScore :: "seo_checks \<Rightarrow> int" where
  "full_calculateSEOScore seoChecks =
     (let sc = 100;
          sc = (if \<not> present (title seoChecks) then sc - 20
                   else if \<not> optimal (title seoChecks) then sc - 10 else sc);
          sc = (if \<not> present (metaDescription seoChecks) then sc - 15
                   else if \<not> optimal (metaDescription seoChecks) then sc - 5 else sc);
          sc = (if \<not> hasH1 (headings seoChecks) then sc - 15 else sc);
          sc = (if multipleH1 (headings seoChecks) then sc - 10 else sc);
          sc = (if altTextCoverage (images seoChecks) < 80 then sc - 15 else sc);
          sc = (if 0 < jsonLd (structuredData seoChecks) then sc + 5 else sc)
      in max 0 (min 100 sc))"

text \<open>
  The accessibility and crawlability scores of the full auditor are computed inside the
  page. What the DOM queries return is the input here.
\<close>

record accessibility_page =
  imagesWithoutAlt :: "string list"  \<comment> \<open>the \<^verbatim>\<open>src\<close> of every \<^verbatim>\<open>img:not([alt])\<close>\<close>
  headingLevels :: "nat list"  \<comment> \<open>the levels of the headings, in document order\<close>
  inputsWithoutLabels :: "bool list"
    \<comment> \<open>for every input without an aria label: does a \<^verbatim>\<open>label[for=id]\<close> exist\<close>
  textElements :: "(string \<times> string) list"  \<comment> \<open>computed colour and background colour\<close>
  allElements :: nat

record crawlability_page =
  scripts :: nat
  bodyHasText :: bool  \<comment> \<open>\<^verbatim>\<open>document.body.innerText.trim().length > 0\<close>\<close>
  viewport :: bool
  canonical :: bool
  currentUrl :: string

fun show_nat :: "nat \<Rightarrow> string" where
  "show_nat n =
     (if n < 10 then [char_of (48 + n)] else show_nat (n div 10) @ [char_of (48 + n mod 10)])"

declare show_nat.simps [simp del]

definition countStructureIssues :: "nat list \<Rightarrow> nat" where
  \<comment> \<open>the \<^verbatim>\<open>forEach\<close> over \<^verbatim>\<open>headingLevels\<close>: the state is (previousLevel, structureIssues)\<close>
  "countStructureIssues levels =
     snd (fold (\<lambda>level (previousLevel, structureIssues).
            (level, if previousLevel + 1 < level then structureIssues + 1 else structureIssues))
          levels (0, 0))"

definition countContrastIssues :: "(string \<times> string) list \<Rightarrow> nat" where
  \<comment> \<open>the \<^verbatim>\<open>forEach\<close> over \<^verbatim>\<open>textElements\<close>: the state is contrastIssues\<close>
  "countContrastIssues elements =
     fold (\<lambda>(color, backgroundColor) contrastIssues.
             if color = backgroundColor then contrastIssues + 1 else contrastIssues)
       elements 0"

definition evaluateAccessibility :: "accessibility_page \<Rightarrow> accessibility_bundle" where
  "evaluateAccessibility page =
     (let issues = [];
          sc = 100;
          n = length (imagesWithoutAlt page);
          (issues, sc) =
            (if 0 < n then
               (issues @ [\<lparr>issue_type = ''error'',
                   issue_message = show_nat n @ '' images missing alt text'',
                   issue_severity = None, issue_category = None, issue_count = None,
                   issue_elements =
                     Some (map (\<lambda>src. if src = [] then ''unknown'' else src) (imagesWithoutAlt page))\<rparr>],
                sc - int n * 5)
             else (issues, sc));
          structureIssues = countStructureIssues (headingLevels page);
          (issues, sc) =
            (if 0 < structureIssues then
               (issues @ [\<lparr>issue_type = ''warning'',
                   issue_message = ''Heading structure may skip levels'',
                   issue_severity = None, issue_category = None,
                   issue_count = Some structureIssues, issue_elements = None\<rparr>],
                sc - int structureIssues * 3)
             else (issues, sc));
          inputsWithLabels = filter (\<lambda>label. \<not> label) (inputsWithoutLabels page);
          (issues, sc) =
            (if 0 < length inputsWithLabels then
               (issues @ [\<lparr>issue_type = ''error'',
                   issue_message = show_nat (length inputsWithLabels) @ '' form inputs missing labels'',
                   issue_severity = None, issue_category = None,
                   issue_count = Some (length inputsWithLabels), issue_elements = None\<rparr>],
                sc - int (length inputsWithLabels) * 8)
             else (issues, sc));
          contrastIssues = countContrastIssues (textElements page);
          (issues, sc) =
            (if 0 < contrastIssues then
               (issues @ [\<lparr>issue_type = ''warning'',
                   issue_message = show_nat contrastIssues @ '' potential color contrast issues'',
                   issue_severity = None, issue_category = None,
                   issue_count = Some contrastIssues, issue_elements = None\<rparr>],
                sc - int contrastIssues * 2)
             else (issues, sc))
      in \<lparr>score = max 0 sc, a11y_issues = issues, totalElements = allElements page,
           passedAudits = None, manualChecks = None, a11y_note = None\<rparr>)"

definition evaluateCrawlability :: "crawlability_page \<Rightarrow> crawlability_bundle" where
  "evaluateCrawlability page =
     (let issues = [];
          sc = 100;
          hasText = bodyHasText page;
          (issues, sc) =
            (if 0 < scripts page \<and> \<not> hasText then
               (issues @ [\<lparr>issue_type = ''error'',
                   issue_message = ''Page appears to be JavaScript-only with no visible content'',
                   issue_severity = Some ''high'', issue_category = None, issue_count = None,
                   issue_elements = None\<rparr>],
                sc - 30)
             else (issues, sc));
          (issues, sc) =
            (if \<not> viewport page then
               (issues @ [\<lparr>issue_type = ''warning'', issue_message = ''Missing viewport meta tag'',
                   issue_severity = Some ''medium'', issue_category = None, issue_count = None,
                   issue_elements = None\<rparr>],
                sc - 10)
             else (issues, sc));
          (issues, sc) =
            (if \<not> canonical page then
               (issues @ [\<lparr>issue_type = ''warning'', issue_message = ''Missing canonical URL'',
                   issue_severity = Some ''medium'', issue_category = None, issue_count = None,
                   issue_elements = None\<rparr>],
                sc - 5)
             else (issues, sc));
          (issues, sc) =
            (if js_includes (currentUrl page) ''#'' then
               (issues @ [\<lparr>issue_type = ''info'', issue_message = ''URL contains hash fragments'',
                   issue_severity = Some ''low'', issue_category = None, issue_count = None,
                   issue_elements = None\<rparr>],
                sc - 2)
             else (issues, sc))
      in \<lparr>score = max 0 sc, crawl_issues = issues, crawl_url = currentUrl page,
           hasContent = hasText, scriptCount = scripts page\<rparr>)"

text \<open>
  The four category audits of the full auditor. Each runs in a \<^verbatim>\<open>try\<close>; the argument is
  what the browser session or the HTTP fetch gave: \<open>Inl\<close> the message of the exception it
  threw, \<open>Inr\<close> what it measured. The \<^verbatim>\<open>catch\<close> block returns
  \<^verbatim>\<open>{ error: error.message, score: 0 }\<close>.
\<close>

definition full_auditPerformance ::
  "string + web_vitals \<times> perf_metrics \<Rightarrow> performance_bundle slot" where
  "full_auditPerformance outcome =
     (case outcome of
        Inl error \<Rightarrow> ErrorMarker error 0
      | Inr (vitals, mtr) \<Rightarrow>
          Bundle \<lparr>score = calculatePerformanceScore vitals mtr,
            coreWebVitals = vitals, metrics = mtr, perf_note = None\<rparr>)"

definition full_auditSEO :: "string + seo_checks \<Rightarrow> seo_bundle slot" where
  "full_auditSEO outcome =
     (case outcome of
        Inl error \<Rightarrow> ErrorMarker error 0
      | Inr seoChecks \<Rightarrow>
          Bundle \<lparr>score = full_calculateSEOScore seoChecks, seo_facts = seoChecks\<rparr>)"



subsection \<open>The simple auditor: canned bundles\<close>

definition createMockPerformanceData :: "string \<Rightarrow> performance_bundle" where
  "createMockPerformanceData url =
     (let isComplexSite = (js_includes url ''optimizemydata'' \<or> js_includes url ''google''
                             \<or> js_includes url ''facebook'');
          isSimpleSite = (js_includes url ''example.com'' \<or> js_includes url ''github.io'');
          (performanceScore, lcp, fid, cls, fcp, tbt, si) =
            (if isComplexSite then (86, 700, 180, 44 / 1000, 600, 180, 4000)
             else if isSimpleSite then (95, 800, 50, 2 / 100, 400, 50, 1500)
             else (78, 1800, 120, 5 / 100, 800, 120, 2500))
      in \<lparr>score = performanceScore,
           coreWebVitals = \<lparr>lcp = Some lcp, fid = Some fid, cls = Some cls, fcp = Some fcp,
             tbt = Some tbt, si = Some si\<rparr>,
           metrics = \<lparr>domContentLoaded = of_int (Math_round (fcp + 200)),
             loadComplete = of_int (Math_round (lcp + 300)),
             firstPaint = of_int (Math_round (fcp - 50)),
             firstContentfulPaint = fcp,
             largestContentfulPaint = Some lcp,
             totalBlockingTime = Some tbt,
             speedIndex = Some si\<rparr>,
           perf_note = Some ''Performance data estimated using Google Lighthouse parameters (browser-based audit unavailable)''\<rparr>)"

definition createMockAccessibilityData :: accessibility_bundle where
  \<open>createMockAccessibilityData =
     (let issues = [];
          issues = issues @ [\<lparr>issue_type = ''warning'',
            issue_message = ''Heading elements are not in a sequentially-descending order'',
            issue_severity = Some ''medium'', issue_category = Some ''Navigation'',
            issue_count = Some 1, issue_elements = None\<rparr>];
          issues = issues @ [\<lparr>issue_type = ''info'',
            issue_message = ''<video> elements contain a <track> element with [kind="captions"]'',
            issue_severity = Some ''low'', issue_category = Some ''Audio and video'',
            issue_count = Some 1, issue_elements = None\<rparr>];
          sc = fold (\<lambda>issue sc.
                 if issue_severity issue = Some ''high'' then sc - 10
                 else if issue_severity issue = Some ''medium'' then sc - 5
                 else if issue_severity issue = Some ''low'' then sc - 2 else sc) issues 98
      in \<lparr>score = max 0 sc, a11y_issues = issues, totalElements = 150,
           passedAudits = Some 25, manualChecks = Some 10,
           a11y_note = Some ''Accessibility data estimated using Google Lighthouse parameters (browser-based audit unavailable)''\<rparr>)\<close>

definition calculateSEOScore :: "seo_checks \<Rightarrow> int" where
  "calculateSEOScore seoChecks =
     (let sc = 92;
          sc = (if \<not> present (title seoChecks) then sc - 25
                else if \<not> optimal (title seoChecks) then sc - 10 else sc);
          sc = (if \<not> present (metaDescription seoChecks) then sc - 15
                else if \<not> optimal (metaDescription seoChecks) then sc - 5 else sc);
          sc = (if \<not> hasH1 (headings seoChecks) then sc - 20 else sc);
          sc = (if multipleH1 (headings seoChecks) then sc - 15 else sc);
          sc = (if altTextCoverage (images seoChecks) < 80 then sc - 15 else sc);
          sc = (if 0 < total (links seoChecks)
                    \<and> internal (links seoChecks) < external (links seoChecks)
                then sc - 10 else sc);
          sc = (if 0 < jsonLd (structuredData seoChecks) then sc + 5 else sc);
          sc = (if robotsTxt (robots seoChecks) = ''Not found'' then sc - 5 else sc);
          sc = (if \<not> sitemap_present (sitemap seoChecks) then sc - 3 else sc)
      in max 0 (min 100 sc))"

definition auditSEO :: "string \<Rightarrow> seo_bundle" where
  "auditSEO url =
     (let isComplexSite = (js_includes url ''optimizemydata'' \<or> js_includes url ''google''
                             \<or> js_includes url ''facebook'');
          seoChecks =
            (if isComplexSite then
               \<lparr>title = \<lparr>present = True,
                  content = ''Optimize My Data - Professional SEO Services'',
                  text_length = 45, optimal = True\<rparr>,
                metaDescription = \<lparr>present = True,
                  content = ''Professional SEO services to help your business grow online. Expert optimization for better search rankings and increased traffic.'',
                  text_length = 125, optimal = True\<rparr>,
                headings = \<lparr>h1 = 1, h2 = 3, h3 = 5, h4 = 2, h5 = 0, h6 = 0,
                  hasH1 = True, multipleH1 = False\<rparr>,
                images = \<lparr>img_total = 8, withAlt = 6, withoutAlt = 2, altTextCoverage = 75\<rparr>,
                links = \<lparr>total = 15, internal = 8, external = 7, withTitle = 3\<rparr>,
                structuredData = \<lparr>jsonLd = 1, microdata = 0, rdfa = 0\<rparr>,
                robots = \<lparr>metaRobots = ''index, follow'', robotsTxt = ''Not found''\<rparr>,
                sitemap = \<lparr>sitemap_present = False, sitemap_url = []\<rparr>\<rparr>
             else
               \<lparr>title = \<lparr>present = True, content = ''Website Title'',
                  text_length = 15, optimal = False\<rparr>,
                metaDescription = \<lparr>present = True, content = ''Website description'',
                  text_length = 20, optimal = False\<rparr>,
                headings = \<lparr>h1 = 1, h2 = 2, h3 = 3, h4 = 1, h5 = 0, h6 = 0,
                  hasH1 = True, multipleH1 = False\<rparr>,
                images = \<lparr>img_total = 5, withAlt = 4, withoutAlt = 1, altTextCoverage = 80\<rparr>,
                links = \<lparr>total = 10, internal = 6, external = 4, withTitle = 2\<rparr>,
                structuredData = \<lparr>jsonLd = 0, microdata = 0, rdfa = 0\<rparr>,
                robots = \<lparr>metaRobots = ''index, follow'', robotsTxt = ''Not found''\<rparr>,
                sitemap = \<lparr>sitemap_present = False, sitemap_url = []\<rparr>\<rparr>)
      in \<lparr>score = calculateSEOScore seoChecks, seo_facts = seoChecks\<rparr>)"

definition auditCrawlability :: "string \<Rightarrow> crawlability_bundle" where
  "auditCrawlability url =
     (let isComplexSite = (js_includes url ''optimizemydata'' \<or> js_includes url ''google''
                             \<or> js_includes url ''facebook'');
          (issues, sc) =
            (if isComplexSite then
               ([\<lparr>issue_type = ''warning'', issue_message = ''Links are not crawlable'',
                   issue_severity = Some ''medium'', issue_category = None, issue_count = None,
                   issue_elements = None\<rparr>], 85)
             else
               ([\<lparr>issue_type = ''warning'', issue_message = ''Missing viewport meta tag'',
                   issue_severity = Some ''medium'', issue_category = None, issue_count = None,
                   issue_elements = None\<rparr>], 90))
      in \<lparr>score = sc, crawl_issues = issues, crawl_url = url, hasContent = True,
           scriptCount = 5\<rparr>)"

subsection \<open>Aggregation and recommendations (the same text in both classes)\<close>

datatype category_key = Performance | SEO | Accessibility | Crawlability

definition weights :: "category_key \<Rightarrow> rat" where
  \<comment> \<open>the literals \<^verbatim>\<open>0.3\<close> and \<^verbatim>\<open>0.2\<close>\<close>
  "weights cat =
     (case cat of Performance \<Rightarrow> to_double (3 / 10) | SEO \<Rightarrow> to_double (3 / 10)
      | Accessibility \<Rightarrow> to_double (2 / 10) | Crawlability \<Rightarrow> to_double (2 / 10))"

definition weight_keys :: "category_key list" where
  \<comment> \<open>\<^verbatim>\<open>Object.keys(weights)\<close>, in insertion order\<close>
  "weight_keys = [Performance, SEO, Accessibility, Crawlability]"

definition numeric_score :: "audit_result \<Rightarrow> category_key \<Rightarrow> int option" where
  \<comment> \<open>\<^verbatim>\<open>results[category].score\<close> when \<^verbatim>\<open>results[category]\<close> is truthy (every slot is an
      object, so it is) and the score is of type number; \<open>None\<close> otherwise\<close>
  "numeric_score results cat =
     (case cat of Performance \<Rightarrow> slot_score (performance results)
      | SEO \<Rightarrow> slot_score (seo results)
      | Accessibility \<Rightarrow> slot_score (accessibility results)
      | Crawlability \<Rightarrow> slot_score (crawlability results))"

definition calculateOverallScore :: "audit_result \<Rightarrow> int" where
  \<comment> \<open>a score is an integer-valued number, so \<open>of_int sc\<close> is the number itself\<close>
  "calculateOverallScore results =
     (let (totalScore, totalWeight) =
            fold (\<lambda>cat (totalScore, totalWeight).
                    case numeric_score results cat of
                      None \<Rightarrow> (totalScore, totalWeight)
                    | Some sc \<Rightarrow>
                        (js_add totalScore (js_mul (of_int sc) (weights cat)),
                         js_add totalWeight (weights cat)))
              weight_keys (0, 0)
      in if 0 < totalWeight then Math_round (js_div totalScore totalWeight) else 0)"

definition generateRecommendations :: "audit_result \<Rightarrow> js_error + recommendation list" where
  "generateRecommendations results =
     (let recs = [];
          recs = (if js_lt (slot_score (performance results)) 70 then
                    recs @ [\<lparr>category = ''Performance'', priority = ''high'',
                      message = ''Improve Core Web Vitals - focus on LCP, FID, and CLS'',
                      details = ''Consider optimizing images, reducing JavaScript execution time, and minimizing layout shifts''\<rparr>]
                  else recs)
      in case (if js_lt (slot_score (seo results)) 70 then
                 (case seo results of
                    Bundle b \<Rightarrow>
                      (let recs = (if \<not> present (title (seo_facts b)) then
                                     recs @ [\<lparr>category = ''SEO'', priority = ''high'',
                                       message = ''Add a title tag to your page'',
                                       details = ''Title tags are crucial for SEO and should be 30-60 characters long''\<rparr>]
                                   else recs);
                           recs = (if \<not> present (metaDescription (seo_facts b)) then
                                     recs @ [\<lparr>category = ''SEO'', priority = ''medium'',
                                       message = ''Add a meta description'',
                                       details = ''Meta descriptions should be 120-160 characters and describe your page content''\<rparr>]
                                   else recs)
                       in Inr recs)
                  | _ \<Rightarrow> Inl (TypeError ''Cannot read properties of undefined (reading 'present')''))
               else Inr recs) of
           Inl e \<Rightarrow> Inl e
         | Inr recs \<Rightarrow>
             (let recs = (if js_lt (slot_score (accessibility results)) 70 then
                            recs @ [\<lparr>category = ''Accessibility'', priority = ''high'',
                              message = ''Improve accessibility compliance'',
                              details = ''Focus on alt text for images, proper heading structure, and form labels''\<rparr>]
                          else recs);
                  recs = (if js_lt (slot_score (crawlability results)) 70 then
                            recs @ [\<lparr>category = ''Crawlability'', priority = ''medium'',
                              message = ''Improve page crawlability'',
                              details = ''Ensure content is accessible without JavaScript and add proper meta tags''\<rparr>]
                          else recs)
              in Inr recs))"

subsection \<open>The simple auditor: one audit\<close>

text \<open>
  \<open>now\<close> is what \<^verbatim>\<open>new Date().toISOString()\<close> returns. Whatever is thrown inside the
  \<^verbatim>\<open>try\<close> is rethrown as \<^verbatim>\<open>Error('Simple audit failed: ' + message)\<close>.
\<close>

definition auditWebsite :: "string \<Rightarrow> string \<Rightarrow> js_error + audit_result" where
  "auditWebsite now url =
     (let results = \<lparr>audit_url = url, timestamp = now, performance = Empty, seo = Empty,
            accessibility = Empty, crawlability = Empty, overallScore = 0,
            recommendations = []\<rparr>;
          seoResults = auditSEO url;
          crawlabilityResults = auditCrawlability url;
          results = results\<lparr>seo := Bundle seoResults\<rparr>;
          results = results\<lparr>crawlability := Bundle crawlabilityResults\<rparr>;
          results = results\<lparr>performance := Bundle (createMockPerformanceData url)\<rparr>;
          results = results\<lparr>accessibility := Bundle createMockAccessibilityData\<rparr>;
          results = results\<lparr>overallScore := calculateOverallScore results\<rparr>
      in case generateRecommendations results of
           Inl e \<Rightarrow> Inl (Error (''Simple audit failed: '' @ error_message e))
         | Inr recs \<Rightarrow> Inr (results\<lparr>recommendations := recs\<rparr>))"

subsection \<open>The aggregation as the specification words it\<close>

text \<open>
  The specification gives the weights 0.30, 0.30, 0.20 and 0.20 and the result as the
  rounded quotient of the weighted scores by the weights, in the arithmetic of the real
  numbers. It says that a category that errored is left out of both the numerator and the
  denominator: in \<open>spec_overallScore\<close> only a slot that holds a bundle contributes. In
  \<open>exact_overallScore\<close> every category with a numeric score contributes, as in the code.
  Both are compared with \<open>calculateOverallScore\<close> below.
\<close>

definition spec_weights :: "category_key \<Rightarrow> rat" where
  "spec_weights cat =
     (case cat of Performance \<Rightarrow> 30 / 100 | SEO \<Rightarrow> 30 / 100
      | Accessibility \<Rightarrow> 20 / 100 | Crawlability \<Rightarrow> 20 / 100)"



definition exact_overallScore :: "audit_result \<Rightarrow> int" where
  "exact_overallScore results =
     (let numerator = (\<Sum>cat\<leftarrow>weight_keys. case numeric_score results cat of
                         None \<Rightarrow> 0 | Some sc \<Rightarrow> of_int sc * spec_weights cat);
          denominator = (\<Sum>cat\<leftarrow>weight_keys. case numeric_score results cat of
                           None \<Rightarrow> 0 | Some sc \<Rightarrow> spec_weights cat)
      in if 0 < denominator then Math_round (numerator / denominator) else 0)"

subsection \<open>Counting the recommendations of one category\<close>

text \<open>
  How many recommendations of the list that \<^verbatim>\<open>generateRecommendations\<close> returns carry a
  given category; none when it throws.
\<close>

definition recommendationCount :: "string \<Rightarrow> audit_result \<Rightarrow> nat" where
  "recommendationCount cat results =
     (case generateRecommendations results of
        Inl e \<Rightarrow> 0
      | Inr recs \<Rightarrow> length (filter (\<lambda>rec. category rec = cat) recs))"

subsection \<open>Example inputs\<close>

text \<open>
  A results object with chosen category scores: the bundles are the canned ones of
  \<^verbatim>\<open>https://example.com\<close> with the score overwritten; \<open>None\<close> leaves the slot as the
  placeholder \<^verbatim>\<open>{}\<close>.
\<close>

definition example_slot :: "'a scored_scheme \<Rightarrow> int option \<Rightarrow> 'a scored_scheme slot" where
  "example_slot b s = (case s of None \<Rightarrow> Empty | Some v \<Rightarrow> Bundle (b\<lparr>score := v\<rparr>))"

definition example_results ::
  "int option \<Rightarrow> int option \<Rightarrow> int option \<Rightarrow> int option \<Rightarrow> audit_result" where
  "example_results p s a c =
     \<lparr>audit_url = ''https://example.com'', timestamp = ''2024-01-01T00:00:00.000Z'',
      performance = example_slot (createMockPerformanceData ''https://example.com'') p,
      seo = example_slot (auditSEO ''https://example.com'') s,
      accessibility = example_slot createMockAccessibilityData a,
      crawlability = example_slot (auditCrawlability ''https://example.com'') c,
      overallScore = 0, recommendations = []\<rparr>"

text \<open>
  The SEO checks of a page without title, meta description and first-level heading, with half
  of its images lacking alt text, and with nothing else the degraded scorer penalises or
  rewards: no links, no JSON-LD, a robots.txt and a sitemap link.
\<close>

definition example_bare_checks :: seo_checks where
  "example_bare_checks =
     \<lparr>title = \<lparr>present = False, content = [], text_length = 0, optimal = False\<rparr>,
      metaDescription = \<lparr>present = False, content = [], text_length = 0, optimal = False\<rparr>,
      headings = \<lparr>h1 = 0, h2 = 2, h3 = 0, h4 = 0, h5 = 0, h6 = 0,
        hasH1 = False, multipleH1 = False\<rparr>,
      images = \<lparr>img_total = 2, withAlt = 1, withoutAlt = 1, altTextCoverage = 50\<rparr>,
      links = \<lparr>total = 0, internal = 0, external = 0, withTitle = 0\<rparr>,
      structuredData = \<lparr>jsonLd = 0, microdata = 0, rdfa = 0\<rparr>,
      robots = \<lparr>metaRobots = [], robotsTxt = ''User-agent: *''\<rparr>,
      sitemap = \<lparr>sitemap_present = True, sitemap_url = ''/sitemap.xml''\<rparr>\<rparr>"

text \<open>
  The results of a page whose SEO audit found the bare checks above (scored by the full
  auditor), with a performance score of 60 and passing accessibility and crawlability.
\<close>

definition example_bare_results :: audit_result where
  "example_bare_results =
     (example_results (Some 60) None (Some 91) (Some 90))
       \<lparr>seo := full_auditSEO (Inr example_bare_checks)\<rparr>"

section \<open>Properties\<close>

subsection \<open>Auxiliary facts\<close>

lemma Math_round_numeral [simp]:
  "Math_round (numeral a / numeral b) = (2 * numeral a + numeral b) div (2 * numeral b)"
  "Math_round (numeral a) = numeral a"
  "Math_round 0 = 0"
proof -
  have "(numeral a :: rat) / numeral b + 1 / 2
          = of_int (2 * numeral a + numeral b) / of_int (2 * numeral b)"
    by (simp add: field_simps)
  then show "Math_round (numeral a / numeral b) = (2 * numeral a + numeral b) div (2 * numeral b)"
    unfolding Math_round_def by (simp only: floor_divide_of_int_eq)
  have "\<lfloor>(of_int z :: rat) + 1 / 2\<rfloor> = z" for z
    by linarith
  from this [of "numeral a"] have "\<lfloor>(numeral a :: rat) + 1 / 2\<rfloor> = numeral a"
    by simp
  then show "Math_round (numeral a) = numeral a" by (simp add: Math_round_def)
  have "\<lfloor>(1::rat) / 2\<rfloor> = 0" by linarith
  then show "Math_round 0 = 0" by (simp add: Math_round_def)
qed

lemma slot_score_simps [simp]:
  "slot_score Empty = None"
  "slot_score (ErrorMarker e v) = Some v"
  "slot_score (Bundle b) = Some (score b)"
  by (simp_all add: slot_score_def)

lemma numeric_score_simps [simp]:
  "numeric_score (r\<lparr>performance := x\<rparr>) Performance = slot_score x"
  "numeric_score (r\<lparr>performance := x\<rparr>) SEO = numeric_score r SEO"
  "numeric_score (r\<lparr>performance := x\<rparr>) Accessibility = numeric_score r Accessibility"
  "numeric_score (r\<lparr>performance := x\<rparr>) Crawlability = numeric_score r Crawlability"
  "numeric_score (r\<lparr>seo := y\<rparr>) Performance = numeric_score r Performance"
  "numeric_score (r\<lparr>seo := y\<rparr>) SEO = slot_score y"
  "numeric_score (r\<lparr>seo := y\<rparr>) Accessibility = numeric_score r Accessibility"
  "numeric_score (r\<lparr>seo := y\<rparr>) Crawlability = numeric_score r Crawlability"
  "numeric_score (r\<lparr>accessibility := z\<rparr>) Performance = numeric_score r Performance"
  "numeric_score (r\<lparr>accessibility := z\<rparr>) SEO = numeric_score r SEO"
  "numeric_score (r\<lparr>accessibility := z\<rparr>) Accessibility = slot_score z"
  "numeric_score (r\<lparr>accessibility := z\<rparr>) Crawlability = numeric_score r Crawlability"
  "numeric_score (r\<lparr>crawlability := w\<rparr>) Performance = numeric_score r Performance"
  "numeric_score (r\<lparr>crawlability := w\<rparr>) SEO = numeric_score r SEO"
  "numeric_score (r\<lparr>crawlability := w\<rparr>) Accessibility = numeric_score r Accessibility"
  "numeric_score (r\<lparr>crawlability := w\<rparr>) Crawlability = slot_score w"
  by (simp_all add: numeric_score_def)

lemma example_slot_simps [simp]:
  "example_slot b None = Empty"
  "example_slot b (Some v) = Bundle (b\<lparr>score := v\<rparr>)"
  by (simp_all add: example_slot_def)

lemma example_results_slots [simp]:
  "performance (example_results p s a c)
     = example_slot (createMockPerformanceData ''https://example.com'') p"
  "seo (example_results p s a c) = example_slot (auditSEO ''https://example.com'') s"
  "accessibility (example_results p s a c) = example_slot createMockAccessibilityData a"
  "crawlability (example_results p s a c)
     = example_slot (auditCrawlability ''https://example.com'') c"
  by (simp_all add: example_results_def)

lemma numeric_score_example [simp]:
  "numeric_score (example_results p s a c) Performance = p"
  "numeric_score (example_results p s a c) SEO = s"
  "numeric_score (example_results p s a c) Accessibility = a"
  "numeric_score (example_results p s a c) Crawlability = c"
  by (simp_all add: numeric_score_def example_results_def example_slot_def slot_score_def
      split: option.splits)

text \<open>
  Values of the double arithmetic, computed from the definitions: the two weights, the sums
  of weights that the loop can reach, and the operations of four runs of the loop.
\<close>

lemma weights_double:
  "weights Performance = 5404319552844595 / 18014398509481984"
  "weights SEO = 5404319552844595 / 18014398509481984"
  "weights Accessibility = 3602879701896397 / 18014398509481984"
  "weights Crawlability = 3602879701896397 / 18014398509481984"
  by code_simp+

lemma double_weight_sums:
  "js_add 0 (5404319552844595 / 18014398509481984) = 5404319552844595 / 18014398509481984"
  "js_add (5404319552844595 / 18014398509481984) (5404319552844595 / 18014398509481984) = 5404319552844595 / 9007199254740992"
  "js_add 0 (3602879701896397 / 18014398509481984) = 3602879701896397 / 18014398509481984"
  "js_add (5404319552844595 / 18014398509481984) (3602879701896397 / 18014398509481984) = 1 / 2"
  "js_add (5404319552844595 / 9007199254740992) (3602879701896397 / 18014398509481984) = 3602879701896397 / 4503599627370496"
  "js_add (3602879701896397 / 18014398509481984) (3602879701896397 / 18014398509481984) = 3602879701896397 / 9007199254740992"
  "js_add (1 / 2) (3602879701896397 / 18014398509481984) = 3152519739159347 / 4503599627370496"
  "js_add (3602879701896397 / 4503599627370496) (3602879701896397 / 18014398509481984) = 1"
  by code_simp+

lemma double_ops_90_80_70_60:
  "js_mul 90 (5404319552844595 / 18014398509481984) = 27"
  "js_add 0 27 = 27"
  "js_mul 80 (5404319552844595 / 18014398509481984) = 24"
  "js_add 27 24 = 51"
  "js_mul 70 (3602879701896397 / 18014398509481984) = 14"
  "js_add 51 14 = 65"
  "js_mul 60 (3602879701896397 / 18014398509481984) = 12"
  "js_add 65 12 = 77"
  "js_div 77 1 = 77"
  by code_simp+

lemma double_ops_90_80_60:
  "js_add 51 12 = 63"
  "js_div 63 (3602879701896397 / 4503599627370496) = 315 / 4"
  by code_simp+

lemma double_ops_95_92_98_84:
  "js_mul 95 (5404319552844595 / 18014398509481984) = 57 / 2"
  "js_add 0 (57 / 2) = 57 / 2"
  "js_mul 92 (5404319552844595 / 18014398509481984) = 7768709357214105 / 281474976710656"
  "js_add (57 / 2) (7768709357214105 / 281474976710656) = 1973843274183475 / 35184372088832"
  "js_mul 98 (3602879701896397 / 18014398509481984) = 2758454771764429 / 140737488355328"
  "js_add (1973843274183475 / 35184372088832) (2758454771764429 / 140737488355328) = 1331728483562291 / 17592186044416"
  "js_mul 84 (3602879701896397 / 18014398509481984) = 4728779608739021 / 281474976710656"
  "js_add (1331728483562291 / 17592186044416) (4728779608739021 / 281474976710656) = 6509108836433919 / 70368744177664"
  "js_div (6509108836433919 / 70368744177664) 1 = 6509108836433919 / 70368744177664"
  by code_simp+

lemma double_ops_0_100_100_100:
  "js_mul 0 (5404319552844595 / 18014398509481984) = 0"
  "js_add 0 0 = 0"
  "js_mul 100 (5404319552844595 / 18014398509481984) = 30"
  "js_add 0 30 = 30"
  "js_mul 100 (3602879701896397 / 18014398509481984) = 20"
  "js_add 30 20 = 50"
  "js_add 50 20 = 70"
  "js_div 70 1 = 70"
  by code_simp+


text \<open>
  The loop of \<^verbatim>\<open>calculateOverallScore\<close> over the four keys: two sums in double arithmetic
  over the categories that have a numeric score, taken in the order of the keys.
\<close>

lemma calculateOverallScore_double_sums:
  "calculateOverallScore r =
     (let numerator = foldl js_add 0 (List.map_filter
            (\<lambda>cat. map_option (\<lambda>sc. js_mul (of_int sc) (weights cat)) (numeric_score r cat))
            [Performance, SEO, Accessibility, Crawlability]);
          denominator = foldl js_add 0 (List.map_filter
            (\<lambda>cat. map_option (\<lambda>sc. weights cat) (numeric_score r cat))
            [Performance, SEO, Accessibility, Crawlability])
      in if List.map_filter (numeric_score r) [Performance, SEO, Accessibility, Crawlability] = []
         then 0 else Math_round (js_div numerator denominator))"
  by (cases "numeric_score r Performance"; cases "numeric_score r SEO";
      cases "numeric_score r Accessibility"; cases "numeric_score r Crawlability";
      simp add: calculateOverallScore_def weight_keys_def List.map_filter_simps
        weights_double double_weight_sums)

subsection \<open>Overall score\<close>



text \<open>
  Claim C2, as the specification states it: \<^verbatim>\<open>calculateOverallScore\<close> equals the rounded
  quotient of the sum of score times weight by the sum of the weights, with the weights
  0.30, 0.30, 0.20 and 0.20. In the arithmetic of the real numbers this fails. For the
  scores 95, 92, 98 and 84 the quotient is 92.5, which rounds to 93; the code computes in
  doubles, where the quotient comes out just below 92.5, and answers 92.
\<close>

theorem calculateOverallScore_exact_counterexample:
  "calculateOverallScore (example_results (Some 95) (Some 92) (Some 98) (Some 84)) = 92
   \<and> exact_overallScore (example_results (Some 95) (Some 92) (Some 98) (Some 84)) = 93"
proof (rule conjI)
  show "calculateOverallScore (example_results (Some 95) (Some 92) (Some 98) (Some 84)) = 92"
    by (simp add: calculateOverallScore_def weight_keys_def weights_double double_weight_sums
        double_ops_95_92_98_84)
next
  show "exact_overallScore (example_results (Some 95) (Some 92) (Some 98) (Some 84)) = 93"
    by (simp add: exact_overallScore_def spec_weights_def weight_keys_def)
qed

text \<open>
  Claim C2, amended: \<^verbatim>\<open>calculateOverallScore\<close> is the rounded quotient of the sum of score
  times weight over the categories that have a numeric score by the sum of their weights,
  where the weights are the doubles nearest to 0.30 (performance, SEO) and 0.20
  (accessibility, crawlability) and every product, sum and quotient is an operation on
  doubles, the sums running in the order performance, SEO, accessibility, crawlability. The
  result is 0 when no category has a numeric score. The scores 90, 80, 70, 60 give 77, and
  90, 80, 60 with accessibility absent give 79.
\<close>

theorem calculateOverallScore_weighted_average:
  "calculateOverallScore r =
     (let numerator = foldl js_add 0 (List.map_filter
            (\<lambda>cat. map_option (\<lambda>sc. js_mul (of_int sc) (weights cat)) (numeric_score r cat))
            [Performance, SEO, Accessibility, Crawlability]);
          denominator = foldl js_add 0 (List.map_filter
            (\<lambda>cat. map_option (\<lambda>sc. weights cat) (numeric_score r cat))
            [Performance, SEO, Accessibility, Crawlability])
      in if List.map_filter (numeric_score r) [Performance, SEO, Accessibility, Crawlability] = []
         then 0 else Math_round (js_div numerator denominator))
   \<and> weights Performance = to_double (30 / 100) \<and> weights SEO = to_double (30 / 100)
   \<and> weights Accessibility = to_double (20 / 100)
   \<and> weights Crawlability = to_double (20 / 100)
   \<and> calculateOverallScore
        (r\<lparr>performance := Empty, seo := Empty, accessibility := Empty, crawlability := Empty\<rparr>) = 0
   \<and> calculateOverallScore (example_results (Some 90) (Some 80) (Some 70) (Some 60)) = 77
   \<and> calculateOverallScore (example_results (Some 90) (Some 80) None (Some 60)) = 79"
proof -
  have "calculateOverallScore
          (r\<lparr>performance := Empty, seo := Empty, accessibility := Empty, crawlability := Empty\<rparr>) = 0"
    by (simp add: calculateOverallScore_def weight_keys_def)
  moreover have "calculateOverallScore (example_results (Some 90) (Some 80) (Some 70) (Some 60)) = 77"
    by (simp add: calculateOverallScore_def weight_keys_def weights_double double_weight_sums
        double_ops_90_80_70_60)
  moreover have "calculateOverallScore (example_results (Some 90) (Some 80) None (Some 60)) = 79"
    by (simp add: calculateOverallScore_def weight_keys_def weights_double double_weight_sums
        double_ops_90_80_70_60 double_ops_90_80_60)
  moreover have "weights Performance = to_double (30 / 100) \<and> weights SEO = to_double (30 / 100)
      \<and> weights Accessibility = to_double (20 / 100)
      \<and> weights Crawlability = to_double (20 / 100)"
    by (simp add: weights_def)
  ultimately show ?thesis
    using calculateOverallScore_double_sums [of r] by blast
qed

text \<open>
  Two further runs: the scores 100, 100 and 98 with accessibility absent give 99, where the
  exact quotient 99.5 would round to 100; the scores 0, 3, 2, 1 give 1, where the exact
  quotient 1.5 would round to 2.
\<close>

lemma double_ops_further:
  "js_add 30 30 = 60"
  "js_add 60 (2758454771764429 / 140737488355328) = 2800676018271027 / 35184372088832"
  "js_div (2800676018271027 / 35184372088832) (3602879701896397 / 4503599627370496) = 7001690045677567 / 70368744177664"
  "js_mul 3 (5404319552844595 / 18014398509481984) = 2026619832316723 / 2251799813685248"
  "js_add 0 (2026619832316723 / 2251799813685248) = 2026619832316723 / 2251799813685248"
  "js_mul 2 (3602879701896397 / 18014398509481984) = 3602879701896397 / 9007199254740992"
  "js_add (2026619832316723 / 2251799813685248) (3602879701896397 / 9007199254740992) = 1463669878895411 / 1125899906842624"
  "js_mul 1 (3602879701896397 / 18014398509481984) = 3602879701896397 / 18014398509481984"
  "js_add (1463669878895411 / 1125899906842624) (3602879701896397 / 18014398509481984) = 6755399441055743 / 4503599627370496"
  "js_div (6755399441055743 / 4503599627370496) 1 = 6755399441055743 / 4503599627370496"
  by code_simp+

lemma calculateOverallScore_further_values:
  "calculateOverallScore (example_results (Some 100) (Some 100) None (Some 98)) = 99"
  "calculateOverallScore (example_results (Some 0) (Some 3) (Some 2) (Some 1)) = 1"
  by (simp_all add: calculateOverallScore_def weight_keys_def weights_double double_weight_sums
      double_ops_95_92_98_84 double_ops_0_100_100_100 double_ops_further)

subsection \<open>SEO score of the simple auditor\<close>

text \<open>Each conditional update of the running score is a subtraction of a conditional amount.\<close>

lemma if_sub: "(if b then (x::int) - k else x) = x - (if b then k else 0)"
  by simp

lemma if_sub': "(if b then (x::int) - k else x - y) = x - (if b then k else y)"
  by simp

lemma if_add: "(if b then (x::int) + k else x) = x + (if b then k else 0)"
  by simp

lemma calculateSEOScore_closed:
  "calculateSEOScore c =
     max 0 (min 100 (92
       - (if \<not> present (title c) then 25 else if \<not> optimal (title c) then 10 else 0)
       - (if \<not> present (metaDescription c) then 15
          else if \<not> optimal (metaDescription c) then 5 else 0)
       - (if \<not> hasH1 (headings c) then 20 else 0)
       - (if multipleH1 (headings c) then 15 else 0)
       - (if altTextCoverage (images c) < 80 then 15 else 0)
       - (if 0 < total (links c) \<and> internal (links c) < external (links c) then 10 else 0)
       + (if 0 < jsonLd (structuredData c) then 5 else 0)
       - (if robotsTxt (robots c) = ''Not found'' then 5 else 0)
       - (if \<not> sitemap_present (sitemap c) then 3 else 0)))"
  unfolding calculateSEOScore_def Let_def if_sub if_sub' if_add ..

text \<open>
  In both canned SEO bundles the \<^verbatim>\<open>optimal\<close> flags say whether the length lies in the range
  the full auditor computes them from: 30..60 for the title, 120..160 for the meta
  description.
\<close>

lemma auditSEO_optimal_flags:
  "optimal (title (seo_facts (auditSEO url)))
     = (30 \<le> text_length (title (seo_facts (auditSEO url)))
        \<and> text_length (title (seo_facts (auditSEO url))) \<le> 60)
   \<and> optimal (metaDescription (seo_facts (auditSEO url)))
     = (120 \<le> text_length (metaDescription (seo_facts (auditSEO url)))
        \<and> text_length (metaDescription (seo_facts (auditSEO url))) \<le> 160)"
  unfolding auditSEO_def Let_def
  by (cases "js_includes url ''optimizemydata'' \<or> js_includes url ''google''
         \<or> js_includes url ''facebook''")
    (simp_all only: if_True if_False seo_bundle.select_convs seo_checks.select_convs
      text_check.select_convs, simp_all)

text \<open>
  Claim C4. In the degraded profile \<^verbatim>\<open>calculateSEOScore\<close> starts at 92, takes off 25 for an
  absent title (else 10 for a title not flagged optimal, the flag standing for a length in
  30..60), 15 for an absent meta description (else 5 for one not flagged optimal, 120..160),
  20 for no H1, 15 for several H1, 15 for alt-text coverage below 80, 10 when there is a
  link and the external links outnumber the internal ones, 5 when robots.txt was not found
  and 3 when there is no sitemap, adds 5 when JSON-LD is present, and clamps to 0..100. When
  title, meta description and H1 are absent, the coverage is below 80 and no other
  adjustment applies, the score is 92 - 25 - 15 - 20 - 15 = 17. In the bundles the degraded
  profile scores, the flags agree with the length ranges.
\<close>

theorem calculateSEOScore_degraded_profile:
  "calculateSEOScore c =
     max 0 (min 100 (92
       - (if \<not> present (title c) then 25 else if \<not> optimal (title c) then 10 else 0)
       - (if \<not> present (metaDescription c) then 15
          else if \<not> optimal (metaDescription c) then 5 else 0)
       - (if \<not> hasH1 (headings c) then 20 else 0)
       - (if multipleH1 (headings c) then 15 else 0)
       - (if altTextCoverage (images c) < 80 then 15 else 0)
       - (if 0 < total (links c) \<and> internal (links c) < external (links c) then 10 else 0)
       + (if 0 < jsonLd (structuredData c) then 5 else 0)
       - (if robotsTxt (robots c) = ''Not found'' then 5 else 0)
       - (if \<not> sitemap_present (sitemap c) then 3 else 0)))
   \<and> (\<not> present (title c) \<and> \<not> present (metaDescription c) \<and> \<not> hasH1 (headings c)
        \<and> altTextCoverage (images c) < 80
        \<and> \<not> multipleH1 (headings c)
        \<and> \<not> (0 < total (links c) \<and> internal (links c) < external (links c))
        \<and> jsonLd (structuredData c) = 0
        \<and> robotsTxt (robots c) \<noteq> ''Not found''
        \<and> sitemap_present (sitemap c)
      \<longrightarrow> calculateSEOScore c = 17)
   \<and> optimal (title (seo_facts (auditSEO url)))
       = (30 \<le> text_length (title (seo_facts (auditSEO url)))
          \<and> text_length (title (seo_facts (auditSEO url))) \<le> 60)
   \<and> optimal (metaDescription (seo_facts (auditSEO url)))
       = (120 \<le> text_length (metaDescription (seo_facts (auditSEO url)))
          \<and> text_length (metaDescription (seo_facts (auditSEO url))) \<le> 160)"
proof (intro conjI)
  show "calculateSEOScore c =
     max 0 (min 100 (92
       - (if \<not> present (title c) then 25 else if \<not> optimal (title c) then 10 else 0)
       - (if \<not> present (metaDescription c) then 15
          else if \<not> optimal (metaDescription c) then 5 else 0)
       - (if \<not> hasH1 (headings c) then 20 else 0)
       - (if multipleH1 (headings c) then 15 else 0)
       - (if altTextCoverage (images c) < 80 then 15 else 0)
       - (if 0 < total (links c) \<and> internal (links c) < external (links c) then 10 else 0)
       + (if 0 < jsonLd (structuredData c) then 5 else 0)
       - (if robotsTxt (robots c) = ''Not found'' then 5 else 0)
       - (if \<not> sitemap_present (sitemap c) then 3 else 0)))"
    by (rule calculateSEOScore_closed)
next
  show "\<not> present (title c) \<and> \<not> present (metaDescription c) \<and> \<not> hasH1 (headings c)
        \<and> altTextCoverage (images c) < 80
        \<and> \<not> multipleH1 (headings c)
        \<and> \<not> (0 < total (links c) \<and> internal (links c) < external (links c))
        \<and> jsonLd (structuredData c) = 0
        \<and> robotsTxt (robots c) \<noteq> ''Not found''
        \<and> sitemap_present (sitemap c)
      \<longrightarrow> calculateSEOScore c = 17"
    by (simp add: calculateSEOScore_closed)
qed (simp_all only: auditSEO_optimal_flags)

theorem calculateSEOScore_degraded_profile_witness:
  "\<not> present (title example_bare_checks)
   \<and> \<not> present (metaDescription example_bare_checks)
   \<and> \<not> hasH1 (headings example_bare_checks)
   \<and> altTextCoverage (images example_bare_checks) < 80
   \<and> calculateSEOScore example_bare_checks = 17"
  using calculateSEOScore_degraded_profile [of example_bare_checks]
  by (simp add: example_bare_checks_def)

text \<open>The scores of the two canned SEO bundles.\<close>

lemma calculateSEOScore_complex_checks:
  "calculateSEOScore
     \<lparr>title = \<lparr>present = True,
        content = ''Optimize My Data - Professional SEO Services'',
        text_length = 45, optimal = True\<rparr>,
      metaDescription = \<lparr>present = True,
        content = ''Professional SEO services to help your business grow online. Expert optimization for better search rankings and increased traffic.'',
        text_length = 125, optimal = True\<rparr>,
      headings = \<lparr>h1 = 1, h2 = 3, h3 = 5, h4 = 2, h5 = 0, h6 = 0,
        hasH1 = True, multipleH1 = False\<rparr>,
      images = \<lparr>img_total = 8, withAlt = 6, withoutAlt = 2, altTextCoverage = 75\<rparr>,
      links = \<lparr>total = 15, internal = 8, external = 7, withTitle = 3\<rparr>,
      structuredData = \<lparr>jsonLd = 1, microdata = 0, rdfa = 0\<rparr>,
      robots = \<lparr>metaRobots = ''index, follow'', robotsTxt = ''Not found''\<rparr>,
      sitemap = \<lparr>sitemap_present = False, sitemap_url = []\<rparr>\<rparr> = 74"
  by (simp add: calculateSEOScore_closed)

lemma calculateSEOScore_default_checks:
  "calculateSEOScore
     \<lparr>title = \<lparr>present = True, content = ''Website Title'',
        text_length = 15, optimal = False\<rparr>,
      metaDescription = \<lparr>present = True, content = ''Website description'',
        text_length = 20, optimal = False\<rparr>,
      headings = \<lparr>h1 = 1, h2 = 2, h3 = 3, h4 = 1, h5 = 0, h6 = 0,
        hasH1 = True, multipleH1 = False\<rparr>,
      images = \<lparr>img_total = 5, withAlt = 4, withoutAlt = 1, altTextCoverage = 80\<rparr>,
      links = \<lparr>total = 10, internal = 6, external = 4, withTitle = 2\<rparr>,
      structuredData = \<lparr>jsonLd = 0, microdata = 0, rdfa = 0\<rparr>,
      robots = \<lparr>metaRobots = ''index, follow'', robotsTxt = ''Not found''\<rparr>,
      sitemap = \<lparr>sitemap_present = False, sitemap_url = []\<rparr>\<rparr> = 69"
  by (simp add: calculateSEOScore_closed)

lemma auditSEO_score:
  "score (auditSEO url) =
     (if js_includes url ''optimizemydata'' \<or> js_includes url ''google''
         \<or> js_includes url ''facebook'' then 74 else 69)"
  unfolding auditSEO_def Let_def scored.select_convs if_distrib [of calculateSEOScore]
    calculateSEOScore_complex_checks calculateSEOScore_default_checks ..

lemma auditSEO_present:
  "present (title (seo_facts (auditSEO url)))
   \<and> present (metaDescription (seo_facts (auditSEO url)))"
  unfolding auditSEO_def Let_def
  by (cases "js_includes url ''optimizemydata'' \<or> js_includes url ''google''
         \<or> js_includes url ''facebook''")
    (simp_all only: if_True if_False seo_bundle.select_convs seo_checks.select_convs
      text_check.select_convs simp_thms)

subsection \<open>Range of the category scores\<close>

lemma case_if:
  "(case (if b then (i1, s1) else (i2, s2)) of (i, s) \<Rightarrow> f i s)
     = (if b then f i1 s1 else f i2 s2)"
  by (cases b) simp_all

lemma score_if: "score (if b then x else y) = (if b then score x else score y)"
  by (cases b) simp_all

lemma if_lower: "0 \<le> x \<Longrightarrow> 0 \<le> y \<Longrightarrow> (0::int) \<le> (if b then x else y)"
  by simp

lemma if_upper: "x \<le> 100 \<Longrightarrow> y \<le> 100 \<Longrightarrow> (if b then x else y) \<le> (100::int)"
  by simp

lemma sub_upper: "x \<le> 100 \<Longrightarrow> 0 \<le> y \<Longrightarrow> x - y \<le> (100::int)"
  by simp

lemma calculatePerformanceScore_range:
  "0 \<le> calculatePerformanceScore vitals mtr \<and> calculatePerformanceScore vitals mtr \<le> 100"
  unfolding calculatePerformanceScore_def Let_def
  by (intro conjI if_lower if_upper max.cobounded1 max.boundedI sub_upper) simp_all

lemma calculateSEOScore_range: "0 \<le> calculateSEOScore c \<and> calculateSEOScore c \<le> 100"
  unfolding calculateSEOScore_def Let_def
  by (simp split del: if_split)

lemma full_calculateSEOScore_range:
  "0 \<le> full_calculateSEOScore c \<and> full_calculateSEOScore c \<le> 100"
  unfolding full_calculateSEOScore_def Let_def
  by (simp split del: if_split)

lemma evaluateAccessibility_range:
  "0 \<le> score (evaluateAccessibility page) \<and> score (evaluateAccessibility page) \<le> 100"
  unfolding evaluateAccessibility_def Let_def case_if score_if scored.select_convs
  by (intro conjI if_lower if_upper max.cobounded1 max.boundedI sub_upper mult_nonneg_nonneg
      of_nat_0_le_iff) simp_all

lemma evaluateCrawlability_range:
  "0 \<le> score (evaluateCrawlability page) \<and> score (evaluateCrawlability page) \<le> 100"
  unfolding evaluateCrawlability_def Let_def case_if score_if scored.select_convs
  by (intro conjI if_lower if_upper max.cobounded1 max.boundedI sub_upper) simp_all

lemma createMockPerformanceData_score:
  "score (createMockPerformanceData url) =
     (if js_includes url ''optimizemydata'' \<or> js_includes url ''google''
         \<or> js_includes url ''facebook'' then 86
      else if js_includes url ''example.com'' \<or> js_includes url ''github.io'' then 95
      else 78)"
  by (simp add: createMockPerformanceData_def Let_def split_def)

lemma createMockAccessibilityData_score: "score createMockAccessibilityData = 91"
  by (simp add: createMockAccessibilityData_def Let_def)

lemma auditCrawlability_score:
  "score (auditCrawlability url) =
     (if js_includes url ''optimizemydata'' \<or> js_includes url ''google''
         \<or> js_includes url ''facebook'' then 85 else 90)"
  by (simp add: auditCrawlability_def Let_def split_def)

text \<open>
  Claim C7. Every category scorer returns an integer between 0 and 100: the performance
  scorer and both SEO scorers, the accessibility and crawlability scores the full auditor
  computes in the page, and the scores of the canned bundles of the simple auditor. That the
  score is an integer is its type.
\<close>

theorem category_scores_in_range:
  "0 \<le> calculatePerformanceScore vitals mtr \<and> calculatePerformanceScore vitals mtr \<le> 100
   \<and> 0 \<le> calculateSEOScore c \<and> calculateSEOScore c \<le> 100
   \<and> 0 \<le> full_calculateSEOScore c \<and> full_calculateSEOScore c \<le> 100
   \<and> 0 \<le> score (evaluateAccessibility ap) \<and> score (evaluateAccessibility ap) \<le> 100
   \<and> 0 \<le> score (evaluateCrawlability cp) \<and> score (evaluateCrawlability cp) \<le> 100
   \<and> 0 \<le> score (createMockPerformanceData url) \<and> score (createMockPerformanceData url) \<le> 100
   \<and> 0 \<le> score (auditSEO url) \<and> score (auditSEO url) \<le> 100
   \<and> 0 \<le> score createMockAccessibilityData \<and> score createMockAccessibilityData \<le> 100
   \<and> 0 \<le> score (auditCrawlability url) \<and> score (auditCrawlability url) \<le> 100"
proof -
  have "0 \<le> score (createMockPerformanceData url) \<and> score (createMockPerformanceData url) \<le> 100"
    by (simp add: createMockPerformanceData_score)
  moreover have "0 \<le> score (auditSEO url) \<and> score (auditSEO url) \<le> 100"
    by (simp add: auditSEO_score)
  moreover have "0 \<le> score createMockAccessibilityData \<and> score createMockAccessibilityData \<le> 100"
    by (simp add: createMockAccessibilityData_score)
  moreover have "0 \<le> score (auditCrawlability url) \<and> score (auditCrawlability url) \<le> 100"
    by (simp add: auditCrawlability_score)
  ultimately show ?thesis
    using calculatePerformanceScore_range [of vitals mtr] calculateSEOScore_range [of c]
      full_calculateSEOScore_range [of c] evaluateAccessibility_range [of ap]
      evaluateCrawlability_range [of cp]
    by blast
qed

subsection \<open>Recommendations\<close>

lemma js_lt_simps [simp]:
  "js_lt None c = False"
  "js_lt (Some v) c = (v < c)"
  by (simp_all add: js_lt_def)

text \<open>
  With SEO checks in its SEO slot, \<^verbatim>\<open>generateRecommendations\<close> returns the concatenation
  of what the four category rules contribute.
\<close>

lemma generateRecommendations_bundle:
  assumes "seo results = Bundle b"
  shows "generateRecommendations results = Inr
     ((if js_lt (slot_score (performance results)) 70 then
         [\<lparr>category = ''Performance'', priority = ''high'',
           message = ''Improve Core Web Vitals - focus on LCP, FID, and CLS'',
           details = ''Consider optimizing images, reducing JavaScript execution time, and minimizing layout shifts''\<rparr>]
       else [])
      @ (if score b < 70 \<and> \<not> present (title (seo_facts b)) then
           [\<lparr>category = ''SEO'', priority = ''high'',
             message = ''Add a title tag to your page'',
             details = ''Title tags are crucial for SEO and should be 30-60 characters long''\<rparr>]
         else [])
      @ (if score b < 70 \<and> \<not> present (metaDescription (seo_facts b)) then
           [\<lparr>category = ''SEO'', priority = ''medium'',
             message = ''Add a meta description'',
             details = ''Meta descriptions should be 120-160 characters and describe your page content''\<rparr>]
         else [])
      @ (if js_lt (slot_score (accessibility results)) 70 then
           [\<lparr>category = ''Accessibility'', priority = ''high'',
             message = ''Improve accessibility compliance'',
             details = ''Focus on alt text for images, proper heading structure, and form labels''\<rparr>]
         else [])
      @ (if js_lt (slot_score (crawlability results)) 70 then
           [\<lparr>category = ''Crawlability'', priority = ''medium'',
             message = ''Improve page crawlability'',
             details = ''Ensure content is accessible without JavaScript and add proper meta tags''\<rparr>]
         else []))"
  using assms
  by (cases "js_lt (slot_score (performance results)) 70";
      cases "score b < 70";
      cases "present (title (seo_facts b))";
      cases "present (metaDescription (seo_facts b))";
      cases "js_lt (slot_score (accessibility results)) 70";
      cases "js_lt (slot_score (crawlability results)) 70";
      simp add: generateRecommendations_def Let_def)

lemma map_if_single: "map f (if c then [x] else []) = (if c then [f x] else [])"
  by simp

lemma if_single_Nil: "((if c then [x] else []) = []) = (\<not> c)"
  by simp

text \<open>
  The rules, for a results object whose SEO slot holds SEO checks: the categories are gone
  through in the order performance, SEO, accessibility, crawlability and the
  recommendations appended in this order, without sorting by priority. There is one
  high-priority Core Web Vitals recommendation exactly when the performance score is below
  70; with the SEO score below 70, one high-priority recommendation exactly when the title
  is absent and one medium-priority recommendation exactly when the meta description is
  absent; one high-priority recommendation exactly when the accessibility score is below 70;
  one medium-priority recommendation exactly when the crawlability score is below 70. A
  category scoring 70 or more contributes nothing, and the list is empty when all four do.
\<close>

lemma generateRecommendations_rules:
  assumes "seo results = Bundle b"
  shows "\<exists>recs. generateRecommendations results = Inr recs
     \<and> map (\<lambda>rec. (category rec, priority rec, message rec)) recs =
         (if js_lt (slot_score (performance results)) 70
          then [(''Performance'', ''high'',
                 ''Improve Core Web Vitals - focus on LCP, FID, and CLS'')] else [])
         @ (if score b < 70 \<and> \<not> present (title (seo_facts b))
            then [(''SEO'', ''high'', ''Add a title tag to your page'')] else [])
         @ (if score b < 70 \<and> \<not> present (metaDescription (seo_facts b))
            then [(''SEO'', ''medium'', ''Add a meta description'')] else [])
         @ (if js_lt (slot_score (accessibility results)) 70
            then [(''Accessibility'', ''high'', ''Improve accessibility compliance'')] else [])
         @ (if js_lt (slot_score (crawlability results)) 70
            then [(''Crawlability'', ''medium'', ''Improve page crawlability'')] else [])
     \<and> (recs = [] \<longleftrightarrow>
           \<not> js_lt (slot_score (performance results)) 70
           \<and> \<not> (score b < 70 \<and> \<not> present (title (seo_facts b)))
           \<and> \<not> (score b < 70 \<and> \<not> present (metaDescription (seo_facts b)))
           \<and> \<not> js_lt (slot_score (accessibility results)) 70
           \<and> \<not> js_lt (slot_score (crawlability results)) 70)"
  unfolding generateRecommendations_bundle [OF assms]
  apply (intro exI conjI)
    apply (rule refl)
   apply (simp only: map_append map_if_single recommendation.select_convs)
  apply (simp only: if_single_Nil append_is_Nil_conv simp_thms)
  done

lemma generateRecommendations_rules_example:
  "seo example_bare_results
     = Bundle \<lparr>score = full_calculateSEOScore example_bare_checks, seo_facts = example_bare_checks\<rparr>
   \<and> (\<exists>recs. generateRecommendations example_bare_results = Inr recs
        \<and> map (\<lambda>rec. (category rec, priority rec, message rec)) recs =
            [(''Performance'', ''high'', ''Improve Core Web Vitals - focus on LCP, FID, and CLS''),
             (''SEO'', ''high'', ''Add a title tag to your page''),
             (''SEO'', ''medium'', ''Add a meta description'')])"
proof -
  have s: "seo example_bare_results
     = Bundle \<lparr>score = full_calculateSEOScore example_bare_checks, seo_facts = example_bare_checks\<rparr>"
    by (simp add: example_bare_results_def full_auditSEO_def)
  have v: "full_calculateSEOScore example_bare_checks = 35"
    by (simp add: full_calculateSEOScore_def example_bare_checks_def)
  have p: "performance example_bare_results
     = Bundle ((createMockPerformanceData ''https://example.com'')\<lparr>score := 60\<rparr>)"
    "accessibility example_bare_results = Bundle (createMockAccessibilityData\<lparr>score := 91\<rparr>)"
    "crawlability example_bare_results
     = Bundle ((auditCrawlability ''https://example.com'')\<lparr>score := 90\<rparr>)"
    by (simp_all add: example_bare_results_def)
  have f: "\<not> present (title example_bare_checks)" "\<not> present (metaDescription example_bare_checks)"
    by (simp_all add: example_bare_checks_def)
  show ?thesis
    using generateRecommendations_rules [OF s] s by (auto simp add: v p f)
qed

text \<open>
  Claim C6. \<^verbatim>\<open>generateRecommendations\<close> is to emit, for every results object, the
  recommendations of the four category rules in the order performance, SEO, accessibility,
  crawlability: one for a performance score below 70, and with an SEO score below 70 one
  for an absent title and one for an absent meta description. The code does so when the
  SEO slot holds SEO checks (\<open>generateRecommendations_rules\<close>). It does not when the SEO
  audit failed. Then the SEO slot is \<^verbatim>\<open>{ error, score: 0 }\<close>: the score is below 70, the
  rule reads \<^verbatim>\<open>results.seo.title.present\<close>, and \<^verbatim>\<open>results.seo.title\<close> is undefined. With
  a performance score of 60 the method throws instead of returning the performance
  recommendation. The rules of the other three categories read the score only: with the
  performance audit failed instead, the method returns the performance recommendation.
\<close>

theorem generateRecommendations_errored_seo:
  "generateRecommendations
     ((example_results (Some 60) None (Some 91) (Some 90))
        \<lparr>seo := full_auditSEO (Inl ''timeout of 10000ms exceeded'')\<rparr>)
     = Inl (TypeError ''Cannot read properties of undefined (reading 'present')'')
   \<and> map (\<lambda>rec. (category rec, priority rec))
         (projr (generateRecommendations
            ((example_results None (Some 74) (Some 91) (Some 90))
               \<lparr>performance := full_auditPerformance (Inl ''Browser not available'')\<rparr>)))
     = [(''Performance'', ''high'')]
   \<and> isl (generateRecommendations
            ((example_results None (Some 74) (Some 91) (Some 90))
               \<lparr>performance := full_auditPerformance (Inl ''Browser not available'')\<rparr>)) = False"
proof -
  have "generateRecommendations
     ((example_results (Some 60) None (Some 91) (Some 90))
        \<lparr>seo := full_auditSEO (Inl ''timeout of 10000ms exceeded'')\<rparr>)
     = Inl (TypeError ''Cannot read properties of undefined (reading 'present')'')"
    by (simp add: generateRecommendations_def full_auditSEO_def Let_def)
  moreover have "seo ((example_results None (Some 74) (Some 91) (Some 90))
               \<lparr>performance := full_auditPerformance (Inl ''Browser not available'')\<rparr>)
     = Bundle ((auditSEO ''https://example.com'')\<lparr>score := 74\<rparr>)"
    by simp
  from generateRecommendations_bundle [OF this]
  have "generateRecommendations
            ((example_results None (Some 74) (Some 91) (Some 90))
               \<lparr>performance := full_auditPerformance (Inl ''Browser not available'')\<rparr>)
     = Inr [\<lparr>category = ''Performance'', priority = ''high'',
           message = ''Improve Core Web Vitals - focus on LCP, FID, and CLS'',
           details = ''Consider optimizing images, reducing JavaScript execution time, and minimizing layout shifts''\<rparr>]"
    by (simp add: full_auditPerformance_def)
  ultimately show ?thesis
    by simp
qed

lemma filter_if_single:
  "filter P (if c then [x] else []) = (if c \<and> P x then [x] else [])"
  by (cases c) simp_all

lemma length_if_single: "length (if c then [x] else []) = (if c then 1 else 0)"
  by simp

lemma recommendationCount_bundle:
  assumes "seo results = Bundle b"
  shows "recommendationCount ''Performance'' results
           = (if js_lt (slot_score (performance results)) 70 then 1 else 0)"
    and "recommendationCount ''SEO'' results
           = (if score b < 70 \<and> \<not> present (title (seo_facts b)) then 1 else 0)
             + (if score b < 70 \<and> \<not> present (metaDescription (seo_facts b)) then 1 else 0)"
    and "recommendationCount ''Accessibility'' results
           = (if js_lt (slot_score (accessibility results)) 70 then 1 else 0)"
    and "recommendationCount ''Crawlability'' results
           = (if js_lt (slot_score (crawlability results)) 70 then 1 else 0)"
  unfolding recommendationCount_def generateRecommendations_bundle [OF assms] sum.case
    filter_append filter_if_single length_append length_if_single recommendation.select_convs
  by simp_all

text \<open>
  Claim C3, amended: when the SEO slot holds its checks, lowering the score of one category
  from 70 or more to below 70, with every other field fixed, never lowers the number of
  recommendations of that category. For performance, accessibility and crawlability it
  raises the number from 0 to 1. For SEO it raises it from 0 to the number of absent facts
  among title and meta description, so it stays 0 when both are present.
\<close>

theorem recommendation_count_monotone:
  assumes "lo < 70" and "70 \<le> hi" and "seo results = Bundle sb"
  shows "recommendationCount ''Performance'' (results\<lparr>performance := Bundle (pb\<lparr>score := hi\<rparr>)\<rparr>) = 0
     \<and> recommendationCount ''Performance'' (results\<lparr>performance := Bundle (pb\<lparr>score := lo\<rparr>)\<rparr>) = 1
     \<and> recommendationCount ''Accessibility'' (results\<lparr>accessibility := Bundle (ab\<lparr>score := hi\<rparr>)\<rparr>) = 0
     \<and> recommendationCount ''Accessibility'' (results\<lparr>accessibility := Bundle (ab\<lparr>score := lo\<rparr>)\<rparr>) = 1
     \<and> recommendationCount ''Crawlability'' (results\<lparr>crawlability := Bundle (cb\<lparr>score := hi\<rparr>)\<rparr>) = 0
     \<and> recommendationCount ''Crawlability'' (results\<lparr>crawlability := Bundle (cb\<lparr>score := lo\<rparr>)\<rparr>) = 1
     \<and> recommendationCount ''SEO'' (results\<lparr>seo := Bundle (sb\<lparr>score := hi\<rparr>)\<rparr>) = 0
     \<and> recommendationCount ''SEO'' (results\<lparr>seo := Bundle (sb\<lparr>score := lo\<rparr>)\<rparr>)
         = (if present (title (seo_facts sb)) then 0 else 1)
           + (if present (metaDescription (seo_facts sb)) then 0 else 1)"
proof -
  have p: "seo (results\<lparr>performance := x\<rparr>) = Bundle sb" for x
    using assms(3) by simp
  have a: "seo (results\<lparr>accessibility := x\<rparr>) = Bundle sb" for x
    using assms(3) by simp
  have c: "seo (results\<lparr>crawlability := x\<rparr>) = Bundle sb" for x
    using assms(3) by simp
  have s: "seo (results\<lparr>seo := Bundle (sb\<lparr>score := v\<rparr>)\<rparr>) = Bundle (sb\<lparr>score := v\<rparr>)" for v
    by simp
  show ?thesis
    using assms(1,2)
    by (simp add: recommendationCount_bundle(1) [OF p] recommendationCount_bundle(3) [OF a]
        recommendationCount_bundle(4) [OF c] recommendationCount_bundle(2) [OF s])
qed

theorem recommendation_count_monotone_witness:
  "(69::int) < 70 \<and> (70::int) \<le> 74
   \<and> seo (example_results (Some 86) (Some 74) (Some 91) (Some 85))
       = Bundle ((auditSEO ''https://example.com'')\<lparr>score := 74\<rparr>)
   \<and> recommendationCount ''Performance''
         ((example_results (Some 86) (Some 74) (Some 91) (Some 85))
            \<lparr>performance := Bundle ((createMockPerformanceData ''https://example.com'')\<lparr>score := 74\<rparr>)\<rparr>) = 0
   \<and> recommendationCount ''Performance''
         ((example_results (Some 86) (Some 74) (Some 91) (Some 85))
            \<lparr>performance := Bundle ((createMockPerformanceData ''https://example.com'')\<lparr>score := 69\<rparr>)\<rparr>) = 1"
proof -
  have s: "seo (example_results (Some 86) (Some 74) (Some 91) (Some 85))
       = Bundle ((auditSEO ''https://example.com'')\<lparr>score := 74\<rparr>)"
    by simp
  have lo: "(69::int) < 70" and hi: "(70::int) \<le> 74"
    by simp_all
  show ?thesis
    using recommendation_count_monotone [OF lo hi s,
        of "createMockPerformanceData ''https://example.com''"] s
    by simp
qed

text \<open>
  Claim C3, as the specification states it: lowering a category score from 70 or more to
  below 70 strictly increases the number of recommendations of that category. It fails for
  SEO: with the canned checks of \<^verbatim>\<open>https://example.com\<close>, where title and meta description
  are present, the SEO score 74 gives no SEO recommendation and the SEO score 69 gives none
  either.
\<close>

theorem recommendation_count_counterexample:
  "(70::int) \<le> 74 \<and> (69::int) < 70
   \<and> recommendationCount ''SEO'' (example_results (Some 86) (Some 74) (Some 91) (Some 85)) = 0
   \<and> recommendationCount ''SEO'' (example_results (Some 86) (Some 69) (Some 91) (Some 85)) = 0"
proof -
  have s: "seo (example_results (Some 86) (Some v) (Some 91) (Some 85))
       = Bundle ((auditSEO ''https://example.com'')\<lparr>score := v\<rparr>)" for v
    by simp
  show ?thesis
    using auditSEO_present [of "''https://example.com''"]
    by (simp add: recommendationCount_bundle(2) [OF s])
qed

subsection \<open>The simple auditor\<close>

text \<open>
  Claim C8. In degraded mode a URL falls into one of three buckets by substring matching: it
  is complex when it contains \<^verbatim>\<open>optimizemydata\<close>, \<^verbatim>\<open>google\<close> or \<^verbatim>\<open>facebook\<close>; otherwise
  simple when it contains \<^verbatim>\<open>example.com\<close> or \<^verbatim>\<open>github.io\<close>; otherwise default. Each bucket
  has one fixed performance bundle, the accessibility bundle is the same fixed bundle for
  every URL, nothing of the page enters either, and both carry a note saying that the data
  is estimated because no browser-based audit ran.
\<close>

theorem degraded_bundles_canned:
  \<open>createMockPerformanceData url =
     (if js_includes url ''optimizemydata'' \<or> js_includes url ''google''
         \<or> js_includes url ''facebook'' then
        \<lparr>score = 86,
         coreWebVitals = \<lparr>lcp = Some 700, fid = Some 180, cls = Some (44 / 1000),
           fcp = Some 600, tbt = Some 180, si = Some 4000\<rparr>,
         metrics = \<lparr>domContentLoaded = 800, loadComplete = 1000, firstPaint = 550,
           firstContentfulPaint = 600, largestContentfulPaint = Some 700,
           totalBlockingTime = Some 180, speedIndex = Some 4000\<rparr>,
         perf_note = Some ''Performance data estimated using Google Lighthouse parameters (browser-based audit unavailable)''\<rparr>
      else if js_includes url ''example.com'' \<or> js_includes url ''github.io'' then
        \<lparr>score = 95,
         coreWebVitals = \<lparr>lcp = Some 800, fid = Some 50, cls = Some (2 / 100),
           fcp = Some 400, tbt = Some 50, si = Some 1500\<rparr>,
         metrics = \<lparr>domContentLoaded = 600, loadComplete = 1100, firstPaint = 350,
           firstContentfulPaint = 400, largestContentfulPaint = Some 800,
           totalBlockingTime = Some 50, speedIndex = Some 1500\<rparr>,
         perf_note = Some ''Performance data estimated using Google Lighthouse parameters (browser-based audit unavailable)''\<rparr>
      else
        \<lparr>score = 78,
         coreWebVitals = \<lparr>lcp = Some 1800, fid = Some 120, cls = Some (5 / 100),
           fcp = Some 800, tbt = Some 120, si = Some 2500\<rparr>,
         metrics = \<lparr>domContentLoaded = 1000, loadComplete = 2100, firstPaint = 750,
           firstContentfulPaint = 800, largestContentfulPaint = Some 1800,
           totalBlockingTime = Some 120, speedIndex = Some 2500\<rparr>,
         perf_note = Some ''Performance data estimated using Google Lighthouse parameters (browser-based audit unavailable)''\<rparr>)
   \<and> createMockAccessibilityData =
        \<lparr>score = 91,
         a11y_issues =
           [\<lparr>issue_type = ''warning'',
              issue_message = ''Heading elements are not in a sequentially-descending order'',
              issue_severity = Some ''medium'', issue_category = Some ''Navigation'',
              issue_count = Some 1, issue_elements = None\<rparr>,
            \<lparr>issue_type = ''info'',
              issue_message = ''<video> elements contain a <track> element with [kind="captions"]'',
              issue_severity = Some ''low'', issue_category = Some ''Audio and video'',
              issue_count = Some 1, issue_elements = None\<rparr>],
         totalElements = 150, passedAudits = Some 25, manualChecks = Some 10,
         a11y_note = Some ''Accessibility data estimated using Google Lighthouse parameters (browser-based audit unavailable)''\<rparr>\<close>
proof (rule conjI)
  show \<open>createMockAccessibilityData =
        \<lparr>score = 91,
         a11y_issues =
           [\<lparr>issue_type = ''warning'',
              issue_message = ''Heading elements are not in a sequentially-descending order'',
              issue_severity = Some ''medium'', issue_category = Some ''Navigation'',
              issue_count = Some 1, issue_elements = None\<rparr>,
            \<lparr>issue_type = ''info'',
              issue_message = ''<video> elements contain a <track> element with [kind="captions"]'',
              issue_severity = Some ''low'', issue_category = Some ''Audio and video'',
              issue_count = Some 1, issue_elements = None\<rparr>],
         totalElements = 150, passedAudits = Some 25, manualChecks = Some 10,
         a11y_note = Some ''Accessibility data estimated using Google Lighthouse parameters (browser-based audit unavailable)''\<rparr>\<close>
    by (simp add: createMockAccessibilityData_def Let_def)
qed (simp add: createMockPerformanceData_def Let_def split_def)

text \<open>What one audit of the simple auditor returns.\<close>

lemma generateRecommendations_simple:
  assumes "performance results = Bundle (createMockPerformanceData url)"
    and "seo results = Bundle (auditSEO url)"
    and "accessibility results = Bundle createMockAccessibilityData"
    and "crawlability results = Bundle (auditCrawlability url)"
  shows "generateRecommendations results = Inr []"
  unfolding generateRecommendations_bundle [OF assms(2)]
  using auditSEO_present [of url]
  by (simp add: assms(1,3,4) createMockPerformanceData_score createMockAccessibilityData_score
      auditCrawlability_score)

lemma auditWebsite_result:
  "auditWebsite now url =
     Inr \<lparr>audit_url = url, timestamp = now,
       performance = Bundle (createMockPerformanceData url),
       seo = Bundle (auditSEO url),
       accessibility = Bundle createMockAccessibilityData,
       crawlability = Bundle (auditCrawlability url),
       overallScore = calculateOverallScore
         \<lparr>audit_url = url, timestamp = now,
          performance = Bundle (createMockPerformanceData url),
          seo = Bundle (auditSEO url),
          accessibility = Bundle createMockAccessibilityData,
          crawlability = Bundle (auditCrawlability url),
          overallScore = 0, recommendations = []\<rparr>,
       recommendations = []\<rparr>"
proof -
  have "generateRecommendations
          \<lparr>audit_url = url, timestamp = now,
           performance = Bundle (createMockPerformanceData url),
           seo = Bundle (auditSEO url),
           accessibility = Bundle createMockAccessibilityData,
           crawlability = Bundle (auditCrawlability url),
           overallScore = v, recommendations = []\<rparr> = Inr []" for v
    by (rule generateRecommendations_simple [of _ url]) simp_all
  then show ?thesis
    by (simp add: auditWebsite_def Let_def)
qed

text \<open>
  Claim C10. For every URL the simple auditor returns an empty list of recommendations. The
  canned performance scores are 86, 95 and 78, the canned accessibility score is 91, the
  canned crawlability scores are 85 and 90, all at least 70; the SEO score is 74 in the
  complex bucket and 69, below 70, otherwise, but title and meta description are present in
  both canned SEO bundles, so no SEO rule fires.
\<close>

theorem simple_audit_no_recommendations:
  "\<exists>r. auditWebsite now url = Inr r \<and> recommendations r = []
     \<and> score (createMockPerformanceData url) =
         (if js_includes url ''optimizemydata'' \<or> js_includes url ''google''
             \<or> js_includes url ''facebook'' then 86
          else if js_includes url ''example.com'' \<or> js_includes url ''github.io'' then 95
          else 78)
     \<and> score createMockAccessibilityData = 91
     \<and> score (auditCrawlability url) =
         (if js_includes url ''optimizemydata'' \<or> js_includes url ''google''
             \<or> js_includes url ''facebook'' then 85 else 90)
     \<and> score (auditSEO url) =
         (if js_includes url ''optimizemydata'' \<or> js_includes url ''google''
             \<or> js_includes url ''facebook'' then 74 else 69)
     \<and> present (title (seo_facts (auditSEO url)))
     \<and> present (metaDescription (seo_facts (auditSEO url)))"
  using auditSEO_present [of url]
  by (simp add: auditWebsite_result createMockPerformanceData_score
      createMockAccessibilityData_score auditCrawlability_score auditSEO_score)

subsection \<open>Performance score\<close>

text \<open>
  Claim C5. \<^verbatim>\<open>calculatePerformanceScore\<close> starts at 100 and takes off, for each of LCP, FID
  and CLS, the penalty of the single highest tier the metric exceeds (LCP 30 above 4000 ms,
  else 15 above 2500 ms; FID 25 above 300 ms, else 10 above 100 ms; CLS 20 above 0.25, else 10
  above 0.1), then 10 if domContentLoaded exceeds 3000 ms and 10 if loadComplete exceeds
  5000 ms, and clamps the result at 0 from below. The penalties of two tiers of one metric
  are never added up.
\<close>

theorem calculatePerformanceScore_tiers:
  "calculatePerformanceScore vitals mtr =
     max 0 (100
       - (if js_gt (lcp vitals) 4000 then 30 else if js_gt (lcp vitals) 2500 then 15 else 0)
       - (if js_gt (fid vitals) 300 then 25 else if js_gt (fid vitals) 100 then 10 else 0)
       - (if js_gt (cls vitals) (25 / 100) then 20 else if js_gt (cls vitals) (1 / 10) then 10 else 0)
       - (if 3000 < domContentLoaded mtr then 10 else 0)
       - (if 5000 < loadComplete mtr then 10 else 0))"
  by (simp add: calculatePerformanceScore_def Let_def)

end
